theory Spec2Isabelle
  imports Main
begin

section \<open>The local database of libdatabase.py\<close>

text \<open>
  The module keeps one SQLite table, \<open>servers\<close>, whose primary key is the column
  \<open>ipAddress\<close>. Twelve columns are declared TEXT and only ever receive text; the columns
  \<open>admin\<close> and \<open>owned\<close> are declared BOOLEAN, which SQLite treats with NUMERIC affinity.
  Characters are code points below 256, and the texts read from a page are taken to be
  ones the engine binds, of at most 1000000000 bytes.
\<close>

subsection \<open>Values, rows and the table\<close>

text \<open>
  The values of a column: a text, an integer, or a floating-point number, \<open>Float m e\<close>
  for \<open>m\<close> times 2 to the power \<open>e\<close>.
\<close>

datatype sqlval = Text string | Integer int | Float int int

record row =
  ipAddress :: string
  name :: string
  type :: string
  page :: string
  admin :: sqlval
  minimum_protect :: string
  owned :: sqlval
  running :: string
  files :: string
  cpu :: string
  memory :: string
  bandwidth :: string
  lastlog :: string
  lastupdated :: string

type_synonym table = "row list"

text \<open>The file local.db: the content of table servers once it has been created.\<close>

type_synonym database = "table option"

datatype pyerror = IndexError | KeyError | OperationalError | IntegrityError
  | NullCharacter | TooBig | FetchFailed

datatype retval = RNone | RInt int | RTuple "sqlval list"

datatype outcome = Returned retval | Raised pyerror

text \<open>The statements a cursor executes, each with the identifier bound to its parameter.\<close>

datatype stmt =
    Select_name string
  | Update_sync string
  | Insert_row string
  | Select_columns "string list" string
  | Update_columns "(string \<times> string) list" string

fun stmt_key :: "stmt \<Rightarrow> string" where
  "stmt_key (Select_name k) = k"
| "stmt_key (Update_sync k) = k"
| "stmt_key (Insert_row k) = k"
| "stmt_key (Select_columns cs k) = k"
| "stmt_key (Update_columns as k) = k"

text \<open>The statement that \<open>connect_to_db\<close> executes on the connection.\<close>

datatype ddl = Create_table_if_not_exists

text \<open>
  What one call of a function of the module does: the statements executed on its
  connection, the table it leaves, the statements its cursor executed, the pages it
  requested and the lines it printed, each in order.
\<close>

record session =
  on_connection :: "ddl list"
  servers :: table
  executed :: "stmt list"
  fetched :: "string list"
  printed :: "string list"

definition VALID_COLUMN_NAMES :: "string list" where
  "VALID_COLUMN_NAMES = [''ipAddress'', ''name'', ''type'', ''page'', ''admin'',
     ''minimum_protect'', ''owned'', ''running'', ''files'', ''cpu'', ''memory'',
     ''bandwidth'', ''lastlog'', ''lastupdated'']"

text \<open>
  \<open>connect_to_db\<close> opens local.db and executes CREATE TABLE IF NOT EXISTS, which creates
  the table, without rows, when the file has none. So the cursor of every function
  below works on an existing table, and the file has the table after every call.
\<close>

definition connect_to_db :: "database \<Rightarrow> session" where
  "connect_to_db db =
     \<lparr>on_connection = [Create_table_if_not_exists],
      servers = (case db of None \<Rightarrow> [] | Some t \<Rightarrow> t),
      executed = [], fetched = [], printed = []\<rparr>"

definition database_of :: "session \<Rightarrow> database" where
  "database_of s = Some (servers s)"

definition keys :: "table \<Rightarrow> string list" where
  "keys t = map ipAddress t"

subsection \<open>Reading and writing a column by its name\<close>

fun column :: "string \<Rightarrow> row \<Rightarrow> sqlval" where
  "column c r =
     (if c = ''ipAddress'' then Text (ipAddress r)
      else if c = ''name'' then Text (name r)
      else if c = ''type'' then Text (type r)
      else if c = ''page'' then Text (page r)
      else if c = ''admin'' then admin r
      else if c = ''minimum_protect'' then Text (minimum_protect r)
      else if c = ''owned'' then owned r
      else if c = ''running'' then Text (running r)
      else if c = ''files'' then Text (files r)
      else if c = ''cpu'' then Text (cpu r)
      else if c = ''memory'' then Text (memory r)
      else if c = ''bandwidth'' then Text (bandwidth r)
      else if c = ''lastlog'' then Text (lastlog r)
      else Text (lastupdated r))"

text \<open>
  \<open>assign naff (c, lit) r\<close> is the assignment \<open>c = 'lit'\<close> of an UPDATE. A TEXT column keeps
  the literal; a BOOLEAN column stores what the engine's NUMERIC affinity makes of it, which
  is the parameter \<open>naff\<close>.
\<close>

fun assign :: "(string \<Rightarrow> sqlval) \<Rightarrow> string \<times> string \<Rightarrow> row \<Rightarrow> row" where
  "assign naff (c, lit) r =
     (if c = ''ipAddress'' then r\<lparr>ipAddress := lit\<rparr>
      else if c = ''name'' then r\<lparr>name := lit\<rparr>
      else if c = ''type'' then r\<lparr>type := lit\<rparr>
      else if c = ''page'' then r\<lparr>page := lit\<rparr>
      else if c = ''admin'' then r\<lparr>admin := naff lit\<rparr>
      else if c = ''minimum_protect'' then r\<lparr>minimum_protect := lit\<rparr>
      else if c = ''owned'' then r\<lparr>owned := naff lit\<rparr>
      else if c = ''running'' then r\<lparr>running := lit\<rparr>
      else if c = ''files'' then r\<lparr>files := lit\<rparr>
      else if c = ''cpu'' then r\<lparr>cpu := lit\<rparr>
      else if c = ''memory'' then r\<lparr>memory := lit\<rparr>
      else if c = ''bandwidth'' then r\<lparr>bandwidth := lit\<rparr>
      else if c = ''lastlog'' then r\<lparr>lastlog := lit\<rparr>
      else r\<lparr>lastupdated := lit\<rparr>)"

subsection \<open>Limits of the engine and the driver\<close>

text \<open>
  The engine refuses a statement whose text, or a bound text whose value, is longer than
  1000000000 bytes in UTF-8, where a code point from 128 on takes two bytes. It refuses
  a SELECT of more than 2000 result columns and an UPDATE of more than 2000 assignments.
  The driver refuses a statement text with a NUL character, after the test of its
  length.
\<close>

definition utf8_length :: "string \<Rightarrow> nat" where
  "utf8_length s = sum_list (map (\<lambda>c. if (of_char c :: nat) < 128 then 1 else 2) s)"

definition too_big :: "string \<Rightarrow> bool" where
  "too_big s = (1000000000 < utf8_length s)"

subsection \<open>get_IP_attributes\<close>

text \<open>
  The loop over the requested names returns at the first name outside the whitelist;
  otherwise it has built the column list of the SELECT.
\<close>

fun whitelisted :: "string list \<Rightarrow> bool" where
  "whitelisted [] = True"
| "whitelisted (a # as) = (if a \<notin> set VALID_COLUMN_NAMES then False else whitelisted as)"

text \<open>The text of the SELECT: every name with a comma, without the last character.\<close>

definition select_text :: "string list \<Rightarrow> string" where
  "select_text attributes =
     ''SELECT '' @ butlast (concat (map (\<lambda>a. a @ '','') attributes)) @
     '' FROM servers WHERE ipAddress = ?''"

text \<open>
  With no name at all the statement reads \<open>SELECT  FROM servers ...\<close>, which the engine
  refuses as a syntax error.
\<close>

definition get_IP_attributes :: "database \<Rightarrow> string \<Rightarrow> string list \<Rightarrow> outcome \<times> session" where
  "get_IP_attributes db IP attributes =
     (let s = connect_to_db db in
      if \<not> whitelisted attributes
      then (Returned (RInt (- 1)), s\<lparr>printed := printed s @ [''Invalid column name'']\<rparr>)
      else if too_big (select_text attributes) then (Raised TooBig, s)
      else if attributes = [] \<or> 2000 < length attributes then (Raised OperationalError, s)
      else if too_big IP then (Raised TooBig, s)
      else
        let s' = s\<lparr>executed := executed s @ [Select_columns attributes IP]\<rparr>;
            results = map (\<lambda>r. map (\<lambda>a. column a r) attributes)
                        (filter (\<lambda>r. ipAddress r = IP) (servers s'))
        in case results of
             first # rest \<Rightarrow> (Returned (RTuple first), s')
           | [] \<Rightarrow> (Returned (RInt (- 1)), s'\<lparr>printed := printed s' @ [''Invalid IP address'']\<rparr>))"

subsection \<open>set_IP_attributes\<close>

text \<open>
  The values arrive as their \<open>str\<close> texts. The loop returns at the first name outside the
  whitelist; otherwise it has composed one assignment per name, the value with every
  single quote removed and put between single quotes. The two lists have the same length
  when the loop runs, so it walks the pairs of \<open>zip attributes values\<close>.
\<close>

fun assignments :: "(string \<times> string) list \<Rightarrow> (string \<times> string) list option" where
  "assignments [] = Some []"
| "assignments ((a, v) # avs) =
     (if a \<notin> set VALID_COLUMN_NAMES then None
      else case assignments avs of
             None \<Rightarrow> None
           | Some rest \<Rightarrow> Some ((a, filter (\<lambda>ch. ch \<noteq> CHR 0x27) v) # rest))"

text \<open>
  The text of the UPDATE as the loop composes it: the assignments with a comma and a
  space between them, each value between single quotes.
\<close>

fun set_list :: "(string \<times> string) list \<Rightarrow> string" where
  "set_list [] = []"
| "set_list [(c, lit)] = c @ '' = '' @ CHR 0x27 # lit @ [CHR 0x27]"
| "set_list ((c, lit) # a # as) =
     c @ '' = '' @ CHR 0x27 # lit @ CHR 0x27 # '', '' @ set_list (a # as)"

definition update_text :: "(string \<times> string) list \<Rightarrow> string" where
  "update_text as = ''UPDATE servers SET '' @ set_list as @ '' WHERE ipAddress = ?''"

text \<open>
  The composed UPDATE as the driver and the engine treat it. A text that is too long or
  has a NUL character is refused; an empty assignment list is a syntax error and more
  than 2000 assignments are too many; an identifier that is too long is not bound; the
  rightmost assignment to a column wins; and the statement changes nothing when it
  would give the matched row the primary key of another row.
\<close>

definition new_key :: "(string \<times> string) list \<Rightarrow> string option" where
  "new_key as = (case filter (\<lambda>(c, lit). c = ''ipAddress'') as of
                   [] \<Rightarrow> None | b # bs \<Rightarrow> Some (snd (last (b # bs))))"

definition execute_update ::
    "(string \<Rightarrow> sqlval) \<Rightarrow> (string \<times> string) list \<Rightarrow> string \<Rightarrow> session \<Rightarrow> outcome \<times> session" where
  "execute_update naff as IP s =
     (if too_big (update_text as) then (Raised TooBig, s)
      else if \<exists>(c, lit) \<in> set as. CHR 0x00 \<in> set lit then (Raised NullCharacter, s)
      else if as = [] \<or> 2000 < length as then (Raised OperationalError, s)
      else if too_big IP then (Raised TooBig, s)
      else
        let s' = s\<lparr>executed := executed s @ [Update_columns as IP]\<rparr> in
        if IP \<in> set (keys (servers s)) \<and>
           (case new_key as of None \<Rightarrow> False
            | Some k \<Rightarrow> k \<noteq> IP \<and> k \<in> set (keys (servers s)))
        then (Raised IntegrityError, s')
        else (Returned (RInt 0),
              s'\<lparr>servers := map (\<lambda>r. if ipAddress r = IP then fold (assign naff) as r else r)
                               (servers s)\<rparr>))"

definition set_IP_attributes ::
    "(string \<Rightarrow> sqlval) \<Rightarrow> database \<Rightarrow> string \<Rightarrow> string list \<Rightarrow> string list \<Rightarrow> outcome \<times> session" where
  "set_IP_attributes naff db IP attributes values =
     (let s = connect_to_db db in
      if length attributes \<noteq> length values
      then (Returned (RInt (- 1)),
            s\<lparr>printed := printed s @ [''Attributes and values must be same length'']\<rparr>)
      else case assignments (zip attributes values) of
             None \<Rightarrow> (Returned (RInt (- 1)), s\<lparr>printed := printed s @ [''Invalid column name'']\<rparr>)
           | Some as \<Rightarrow> execute_update naff as IP s)"

section \<open>The pages of the online IP database\<close>

text \<open>
  \<open>get_page\<close> returns a parsed document: a tree of tags, each with its name, its attributes
  and its children, and of strings. The parser gives every string a class: the text
  between tags is a NavigableString or a CData section; a comment, a declaration, a
  doctype and a processing instruction have their own classes, and so have the strings
  inside a script, a style and a template tag and inside the ruby tags rt and rp.
\<close>

datatype string_class =
    NavigableString | CData | Comment | Declaration | Doctype | ProcessingInstruction
  | Script | Stylesheet | TemplateString | RubyTextString | RubyParenthesisString

datatype html = Elem string "(string \<times> string) list" "html list" | Str string_class string

fun nodes :: "html \<Rightarrow> html list" where
  "nodes (Str k t) = [Str k t]"
| "nodes (Elem n as cs) = Elem n as cs # concat (map nodes cs)"

fun children :: "html \<Rightarrow> html list" where
  "children (Str k t) = []"
| "children (Elem n as cs) = cs"

fun is_tag :: "string \<Rightarrow> html \<Rightarrow> bool" where
  "is_tag n (Str k t) = False"
| "is_tag n (Elem m as cs) = (m = n)"

text \<open>\<open>find_all\<close>: the tags of that name below a node, in document order.\<close>

definition find_all :: "string \<Rightarrow> html \<Rightarrow> html list" where
  "find_all n t = filter (is_tag n) (concat (map nodes (children t)))"

text \<open>
  \<open>text\<close> and \<open>get_text()\<close> of the document and of a table cell: the strings below the
  node of the classes NavigableString and CData, in document order. The strings of the
  other classes are left out: a comment, and what a script, a style or a template tag
  holds, are not in the text.
\<close>

fun in_text :: "string_class \<Rightarrow> bool" where
  "in_text NavigableString = True"
| "in_text CData = True"
| "in_text k = False"

fun get_text :: "html \<Rightarrow> string" where
  "get_text (Str k t) = (if in_text k then t else [])"
| "get_text (Elem n as cs) = concat (map get_text cs)"

fun attr :: "html \<Rightarrow> string \<Rightarrow> pyerror + string" where
  "attr (Str c t) k = Inl KeyError"
| "attr (Elem n as cs) k = (case map_of as k of None \<Rightarrow> Inl KeyError | Some v \<Rightarrow> Inr v)"

subsection \<open>Python's list and string operations\<close>

definition index :: "'a list \<Rightarrow> nat \<Rightarrow> pyerror + 'a" where
  "index xs i = (if i < length xs then Inr (xs ! i) else Inl IndexError)"

definition bind :: "pyerror + 'a \<Rightarrow> ('a \<Rightarrow> pyerror + 'b) \<Rightarrow> pyerror + 'b" where
  "bind m f = (case m of Inl e \<Rightarrow> Inl e | Inr x \<Rightarrow> f x)"

text \<open>\<open>needle in hay\<close>\<close>

fun contains :: "'a list \<Rightarrow> 'a list \<Rightarrow> bool" where
  "contains needle [] = (needle = [])"
| "contains needle (h # hay) = (take (length needle) (h # hay) = needle \<or> contains needle hay)"

text \<open>\<open>xs[::2]\<close>\<close>

fun every_second :: "'a list \<Rightarrow> 'a list" where
  "every_second [] = []"
| "every_second [x] = [x]"
| "every_second (x # y # zs) = x # every_second zs"

text \<open>Splitting at every character that satisfies \<open>p\<close>; the pieces may be empty.\<close>

fun split_where :: "(char \<Rightarrow> bool) \<Rightarrow> string \<Rightarrow> string list" where
  "split_where p [] = [[]]"
| "split_where p (c # cs) =
     (if p c then [] # split_where p cs
      else case split_where p cs of
             w # ws \<Rightarrow> (c # w) # ws
           | [] \<Rightarrow> [[c]])"

text \<open>\<open>s.split(sep)\<close> for a separator of one character.\<close>

definition split_on :: "char \<Rightarrow> string \<Rightarrow> string list" where
  "split_on sep s = split_where (\<lambda>c. c = sep) s"

text \<open>\<open>str.isspace\<close> on the code points below 256, and \<open>s.split()\<close>.\<close>

definition isspace :: "char \<Rightarrow> bool" where
  "isspace c = (of_char c \<in> {9, 10, 11, 12, 13, 28, 29, 30, 31, 32, 133, 160 :: nat})"

definition split_ws :: "string \<Rightarrow> string list" where
  "split_ws s = filter (\<lambda>w. w \<noteq> []) (split_where isspace s)"

fun join :: "string \<Rightarrow> string list \<Rightarrow> string" where
  "join sep [] = []"
| "join sep [w] = w"
| "join sep (w # v # ws) = w @ sep @ join sep (v # ws)"

text \<open>\<open>str(n)\<close> for a number that is not negative.\<close>

fun str :: "nat \<Rightarrow> string" where
  "str n = (if n < 10 then [''0123456789'' ! n]
            else str (n div 10) @ [''0123456789'' ! (n mod 10)])"

declare str.simps [simp del]

subsection \<open>Locating the rows of a page\<close>

definition candidate_rows :: "'a list \<Rightarrow> 'a list" where
  "candidate_rows rows = butlast (tl (every_second rows))"

definition extended_layout :: "html \<Rightarrow> pyerror + html list" where
  "extended_layout doc =
     bind (index (find_all ''table'' doc) 16) (\<lambda>t.
     Inr (candidate_rows (find_all ''tr'' t)))"

definition standard_layout :: "html \<Rightarrow> pyerror + html list" where
  "standard_layout doc =
     bind (index (find_all ''table'' doc) 9) (\<lambda>t.
     bind (index (find_all ''table'' t) 3) (\<lambda>u.
     Inr (candidate_rows (find_all ''tr'' u))))"

definition find_trs :: "html \<Rightarrow> pyerror + html list" where
  "find_trs doc =
     (if contains ''Remote host web service'' (get_text doc)
      then extended_layout doc
      else standard_layout doc)"

subsection \<open>The information of one row\<close>

record info =
  info_ipAddress :: string
  info_name :: string
  info_admin :: bool
  info_owned :: bool

definition get_information :: "html \<Rightarrow> pyerror + info" where
  "get_information tr =
     bind (index (find_all ''td'' tr) 0) (\<lambda>td0.
     bind (index (find_all ''td'' td0) 0) (\<lambda>td00.
     bind (index (find_all ''a'' td00) 0) (\<lambda>a.
     bind (attr a ''href'') (\<lambda>href.
     bind (index (split_on CHR ''&'' href) 2) (\<lambda>part.
     bind (index (find_all ''td'' tr) 5) (\<lambda>td5.
     bind (index (find_all ''td'' tr) 6) (\<lambda>td6.
     bind (index (find_all ''td'' tr) 7) (\<lambda>td7.
     Inr \<lparr>info_ipAddress = drop 7 part,
          info_name = join '' '' (split_ws (get_text td5)),
          info_admin = (get_text td6 = ''Yes''),
          info_owned = (get_text td7 = ''Gateway'')\<rparr>))))))))"

section \<open>IPDB_to_localDB\<close>

definition server_type :: "string \<Rightarrow> string" where
  "server_type ext =
     (if ext = ''pub'' then ''Public'' else if ext = ''priv'' then ''Private'' else ''Secret'')"

definition url :: "string \<Rightarrow> nat \<Rightarrow> string" where
  "url ext counter = ''index.php?action=ip_db&a2='' @ ext @ ''&_o='' @ str (counter * 20)"

text \<open>A Python \<open>bool\<close> bound to a parameter is stored as the integer 1 or 0.\<close>

definition bool_val :: "bool \<Rightarrow> sqlval" where
  "bool_val b = Integer (if b then 1 else 0)"

text \<open>The UPDATE of line 113 on the table.\<close>

definition update_row :: "string \<Rightarrow> nat \<Rightarrow> info \<Rightarrow> row \<Rightarrow> row" where
  "update_row typ counter i r =
     r\<lparr>name := info_name i, type := typ, page := str counter,
       admin := bool_val (info_admin i), owned := bool_val (info_owned i)\<rparr>"

definition execute_update_sync :: "string \<Rightarrow> nat \<Rightarrow> info \<Rightarrow> table \<Rightarrow> table" where
  "execute_update_sync typ counter i t =
     map (\<lambda>r. if ipAddress r = info_ipAddress i then update_row typ counter i r else r) t"

text \<open>The row of the INSERT of line 116, and the INSERT under the primary key.\<close>

definition new_row :: "string \<Rightarrow> nat \<Rightarrow> info \<Rightarrow> row" where
  "new_row typ counter i =
     \<lparr>ipAddress = info_ipAddress i, name = info_name i, type = typ, page = str counter,
      admin = bool_val (info_admin i), minimum_protect = [],
      owned = bool_val (info_owned i), running = [], files = [], cpu = [],
      memory = [], bandwidth = [], lastlog = [], lastupdated = ''N/A''\<rparr>"

definition execute_insert :: "row \<Rightarrow> table \<Rightarrow> pyerror + table" where
  "execute_insert r t = (if ipAddress r \<in> set (keys t) then Inl IntegrityError else Inr (t @ [r]))"

text \<open>
  Lines 111 to 116: the row is updated when a SELECT finds its identifier, and inserted
  otherwise.
\<close>

definition upsert :: "string \<Rightarrow> nat \<Rightarrow> info \<Rightarrow> session \<Rightarrow> pyerror option \<times> session" where
  "upsert typ counter i s =
     (let s1 = s\<lparr>executed := executed s @ [Select_name (info_ipAddress i)]\<rparr> in
      if length (filter (\<lambda>r. ipAddress r = info_ipAddress i) (servers s1)) \<noteq> 0
      then (None, s1\<lparr>executed := executed s1 @ [Update_sync (info_ipAddress i)],
                     servers := execute_update_sync typ counter i (servers s1)\<rparr>)
      else
        let s2 = s1\<lparr>executed := executed s1 @ [Insert_row (info_ipAddress i)]\<rparr> in
        case execute_insert (new_row typ counter i) (servers s2) of
          Inl e \<Rightarrow> (Some e, s2)
        | Inr t \<Rightarrow> (None, s2\<lparr>servers := t\<rparr>))"

text \<open>Lines 106 to 116: what the loop does with the information of one row.\<close>

definition store_information ::
    "string \<Rightarrow> string \<Rightarrow> nat \<Rightarrow> info \<Rightarrow> session \<Rightarrow> pyerror option \<times> session" where
  "store_information IP typ counter i s =
     (if info_ipAddress i \<noteq> IP \<and> IP \<noteq> ''none'' then (None, s)
      else upsert typ counter i s)"

text \<open>The loop over the rows of one page: an exception ends it where it is raised.\<close>

fun for_trs :: "string \<Rightarrow> string \<Rightarrow> nat \<Rightarrow> html list \<Rightarrow> session \<Rightarrow> pyerror option \<times> session" where
  "for_trs IP typ counter [] s = (None, s)"
| "for_trs IP typ counter (tr # trs) s =
     (case get_information tr of
        Inl e \<Rightarrow> (Some e, s)
      | Inr i \<Rightarrow>
          (case store_information IP typ counter i s of
             (Some e, s') \<Rightarrow> (Some e, s')
           | (None, s') \<Rightarrow> for_trs IP typ counter trs s'))"

text \<open>
  The loop over the pages of one category. \<open>get_page\<close> is the function of libbasic, taken
  as a parameter: the document it returns for a request, or nothing when it raises. The
  loop ends after the first page without rows; it need not end, and then the result is
  \<open>None\<close>.
\<close>

partial_function (option) while_moreIPs ::
    "(string \<Rightarrow> html option) \<Rightarrow> string \<Rightarrow> string \<Rightarrow> nat \<Rightarrow> session
       \<Rightarrow> (pyerror option \<times> session) option" where
  "while_moreIPs get_page IP ext counter s =
     (let s1 = s\<lparr>fetched := fetched s @ [url ext counter]\<rparr> in
      case get_page (url ext counter) of
        None \<Rightarrow> Some (Some FetchFailed, s1)
      | Some doc \<Rightarrow>
          (case find_trs doc of
             Inl e \<Rightarrow> Some (Some e, s1)
           | Inr trs \<Rightarrow>
               (case for_trs IP (server_type ext) counter trs s1 of
                  (Some e, s2) \<Rightarrow> Some (Some e, s2)
                | (None, s2) \<Rightarrow>
                    if length trs = 0 then Some (None, s2)
                    else while_moreIPs get_page IP ext (counter + 1) s2)))"

declare while_moreIPs.simps [code]

fun for_exts ::
    "(string \<Rightarrow> html option) \<Rightarrow> string \<Rightarrow> string list \<Rightarrow> session
       \<Rightarrow> (pyerror option \<times> session) option" where
  "for_exts get_page IP [] s = Some (None, s)"
| "for_exts get_page IP (ext # exts) s =
     (case while_moreIPs get_page IP ext 0 s of
        None \<Rightarrow> None
      | Some (Some e, s') \<Rightarrow> Some (Some e, s')
      | Some (None, s') \<Rightarrow> for_exts get_page IP exts s')"

text \<open>The function returns nothing, or the exception of a loop leaves it.\<close>

definition result :: "pyerror option \<Rightarrow> outcome" where
  "result e = (case e of None \<Rightarrow> Returned RNone | Some x \<Rightarrow> Raised x)"

definition IPDB_to_localDB ::
    "(string \<Rightarrow> html option) \<Rightarrow> string \<Rightarrow> database \<Rightarrow> (outcome \<times> session) option" where
  "IPDB_to_localDB get_page IP db =
     (case for_exts get_page IP [''pub'', ''priv'', ''sec''] (connect_to_db db) of
        None \<Rightarrow> None
      | Some (e, s) \<Rightarrow> Some (result e, s))"

text \<open>
  A sequence of calls, each with the remote database of its moment and its filter, every
  call on the table the one before has left.
\<close>

fun sync_sequence :: "((string \<Rightarrow> html option) \<times> string) list \<Rightarrow> database \<Rightarrow> database option" where
  "sync_sequence [] db = Some db"
| "sync_sequence ((get_page, IP) # calls) db =
     (case IPDB_to_localDB get_page IP db of
        None \<Rightarrow> None
      | Some (out, s) \<Rightarrow> sync_sequence calls (Some (servers s)))"

section \<open>The wording of the specification, and sample data\<close>

text \<open>
  The rows as the specification words them: the odd-indexed rows of the row sequence,
  without the first and the last of them.
\<close>

definition odd_indexed :: "'a list \<Rightarrow> 'a list" where
  "odd_indexed rows = map (\<lambda>i. rows ! i) (filter odd [0 ..< length rows])"

definition spec_candidate_rows :: "'a list \<Rightarrow> 'a list" where
  "spec_candidate_rows rows = butlast (tl (odd_indexed rows))"

text \<open>
  The layout decision as the specification words it: its marker string, looked for in
  the content of the page, which is every string of the page.
\<close>

fun page_content :: "html \<Rightarrow> string" where
  "page_content (Str k t) = t"
| "page_content (Elem n as cs) = concat (map page_content cs)"

definition spec_find_trs :: "html \<Rightarrow> pyerror + html list" where
  "spec_find_trs doc =
     (if contains ''remote host web service'' (page_content doc)
      then extended_layout doc
      else standard_layout doc)"

text \<open>A row of the table, and a conversion to run examples that assign no BOOLEAN column.\<close>

definition sample_row :: row where
  "sample_row =
     \<lparr>ipAddress = ''10.0.0.1'', name = ''alpha'', type = ''Public'', page = ''0'',
      admin = Integer 0, minimum_protect = ''7'', owned = Integer 0, running = ''ssh'',
      files = [], cpu = [], memory = [], bandwidth = [], lastlog = [],
      lastupdated = ''N/A''\<rparr>"

definition keep_text :: "string \<Rightarrow> sqlval" where
  "keep_text lit = Text lit"

text \<open>Seven rows of a table, numbered from 0.\<close>

definition numbered_tr :: "nat \<Rightarrow> html" where
  "numbered_tr n = Elem ''tr'' [(''id'', str n)] []"

definition seven_rows :: "html list" where
  "seven_rows = map numbered_tr [0, 1, 2, 3, 4, 5, 6]"

text \<open>
  A listing row as the pages have it: the link with the identifier in a cell inside the
  first cell, then the name, the admin and the owner cells.
\<close>

definition sample_tr :: "string \<Rightarrow> string \<Rightarrow> string \<Rightarrow> string \<Rightarrow> html" where
  "sample_tr ip nm adm own =
     Elem ''tr'' []
       [Elem ''td'' []
          [Elem ''td'' []
             [Elem ''a'' [(''href'', ''index.php?action=connect&a2=x&con_ip='' @ ip)] [Str NavigableString ip]]],
        Elem ''td'' [] [], Elem ''td'' [] [], Elem ''td'' [] [],
        Elem ''td'' [] [Str NavigableString nm], Elem ''td'' [] [Str NavigableString adm],
        Elem ''td'' [] [Str NavigableString own]]"

definition empty_tr :: html where
  "empty_tr = Elem ''tr'' [] []"

fun interleave :: "html list \<Rightarrow> html list" where
  "interleave [] = []"
| "interleave (r # rs) = r # empty_tr # interleave rs"

text \<open>The table of a listing: a header and a footer row, and a separator after every row.\<close>

definition listing :: "html list \<Rightarrow> html" where
  "listing rows = Elem ''table'' [] (empty_tr # empty_tr # interleave rows @ [empty_tr])"

text \<open>A page in the standard layout: the listing is the fourth table inside the tenth.\<close>

definition sample_page :: "html list \<Rightarrow> html" where
  "sample_page rows =
     Elem ''[document]'' []
       (replicate 9 (Elem ''table'' [] []) @
        [Elem ''table'' [] (replicate 3 (Elem ''table'' [] []) @ [listing rows])])"

text \<open>
  A page whose seventeenth table is the listing and whose text has the marker of the
  specification, in lower case.
\<close>

definition lowercase_page :: html where
  "lowercase_page =
     Elem ''[document]'' []
       (Str NavigableString ''remote host web service'' # replicate 16 (Elem ''table'' [] []) @
        [listing [sample_tr ''10.0.0.1'' ''alpha'' ''Yes'' ''No'']])"

text \<open>
  A page whose seventeenth table is the listing and which has the marker of the code in
  a script only.
\<close>

definition script_page :: html where
  "script_page =
     Elem ''[document]'' []
       (Elem ''script'' [] [Str Script ''document.title = Remote host web service''] #
        replicate 16 (Elem ''table'' [] []) @
        [listing [sample_tr ''10.0.0.1'' ''alpha'' ''Yes'' ''No'']])"

text \<open>
  A remote database with two public servers, of which the first is listed again as a
  private one, and no secret server.
\<close>

definition alpha_tr :: html where
  "alpha_tr = sample_tr ''10.0.0.1'' ''  alpha   one '' ''Yes'' ''No''"

definition beta_tr :: html where
  "beta_tr = sample_tr ''10.0.0.2'' ''beta'' ''No'' ''Gateway''"


definition pub_page :: html where
  "pub_page = sample_page [alpha_tr, beta_tr]"

definition sample_get_page :: "string \<Rightarrow> html option" where
  "sample_get_page q =
     (if q = ''index.php?action=ip_db&a2=pub&_o=0'' then Some pub_page
      else if q = ''index.php?action=ip_db&a2=priv&_o=0''
      then Some (sample_page [sample_tr ''10.0.0.1'' ''alpha'' ''No'' ''No''])
      else Some (sample_page []))"

text \<open>The table and the requests of a run on that remote database.\<close>

definition synced_table :: table where
  "synced_table =
     [\<lparr>ipAddress = ''10.0.0.1'', name = ''alpha'', type = ''Private'', page = ''0'',
       admin = Integer 0, minimum_protect = [], owned = Integer 0, running = [],
       files = [], cpu = [], memory = [], bandwidth = [], lastlog = [],
       lastupdated = ''N/A''\<rparr>,
      \<lparr>ipAddress = ''10.0.0.2'', name = ''beta'', type = ''Public'', page = ''0'',
       admin = Integer 0, minimum_protect = [], owned = Integer 1, running = [],
       files = [], cpu = [], memory = [], bandwidth = [], lastlog = [],
       lastupdated = ''N/A''\<rparr>]"

definition beta_row :: row where
  "beta_row =
     \<lparr>ipAddress = ''10.0.0.2'', name = ''beta'', type = ''Public'', page = ''0'',
      admin = Integer 0, minimum_protect = [], owned = Integer 1, running = [],
      files = [], cpu = [], memory = [], bandwidth = [], lastlog = [],
      lastupdated = ''N/A''\<rparr>"

definition sample_fetched :: "string list" where
  "sample_fetched =
     [''index.php?action=ip_db&a2=pub&_o=0'', ''index.php?action=ip_db&a2=pub&_o=20'',
      ''index.php?action=ip_db&a2=priv&_o=0'', ''index.php?action=ip_db&a2=priv&_o=20'',
      ''index.php?action=ip_db&a2=sec&_o=0'']"

section \<open>A run as a list of events\<close>

text \<open>
  What a run requests and writes does not depend on the table it starts from: the pages
  and their rows decide it. The events of a run are the requests of pages and, for
  every row read that passes the filter of line 107, the write of lines 111 to 116.
\<close>

definition wanted :: "string \<Rightarrow> info \<Rightarrow> bool" where
  "wanted IP i = (\<not> (info_ipAddress i \<noteq> IP \<and> IP \<noteq> ''none''))"

datatype event = Fetch string | Store string nat info

fun replay1 :: "event \<Rightarrow> session \<Rightarrow> session" where
  "replay1 (Fetch q) s = s\<lparr>fetched := fetched s @ [q]\<rparr>"
| "replay1 (Store typ counter i) s = snd (upsert typ counter i s)"

definition replay :: "event list \<Rightarrow> session \<Rightarrow> session" where
  "replay es s = fold replay1 es s"

text \<open>The rows of a page read before the first that raises, and what that one raises.\<close>

fun informations :: "html list \<Rightarrow> info list \<times> pyerror option" where
  "informations [] = ([], None)"
| "informations (tr # trs) =
     (case get_information tr of
        Inl e \<Rightarrow> ([], Some e)
      | Inr i \<Rightarrow> (case informations trs of (is, e) \<Rightarrow> (i # is, e)))"

definition page_events :: "(string \<Rightarrow> html option) \<Rightarrow> string \<Rightarrow> string \<Rightarrow> nat \<Rightarrow> event list" where
  "page_events get_page IP ext counter =
     Fetch (url ext counter) #
     (case get_page (url ext counter) of
        None \<Rightarrow> []
      | Some doc \<Rightarrow>
          (case find_trs doc of
             Inl e \<Rightarrow> []
           | Inr trs \<Rightarrow>
               map (Store (server_type ext) counter)
                 (filter (wanted IP) (fst (informations trs)))))"

text \<open>What a page raises, and whether the loop goes on to the next page.\<close>

definition page_status :: "(string \<Rightarrow> html option) \<Rightarrow> string \<Rightarrow> nat \<Rightarrow> pyerror option \<times> bool" where
  "page_status get_page ext counter =
     (case get_page (url ext counter) of
        None \<Rightarrow> (Some FetchFailed, False)
      | Some doc \<Rightarrow>
          (case find_trs doc of
             Inl e \<Rightarrow> (Some e, False)
           | Inr trs \<Rightarrow>
               (case snd (informations trs) of
                  Some e \<Rightarrow> (Some e, False)
                | None \<Rightarrow> (None, trs \<noteq> []))))"

definition pages_events ::
    "(string \<Rightarrow> html option) \<Rightarrow> string \<Rightarrow> string \<Rightarrow> nat \<Rightarrow> nat \<Rightarrow> event list" where
  "pages_events get_page IP ext counter n =
     concat (map (page_events get_page IP ext) [counter ..< counter + n])"

text \<open>The loop of a category stops at page \<open>counter + n\<close> with \<open>e\<close>.\<close>

definition stops :: "(string \<Rightarrow> html option) \<Rightarrow> string \<Rightarrow> nat \<Rightarrow> nat \<Rightarrow> pyerror option \<Rightarrow> bool" where
  "stops get_page ext counter n e =
     ((\<forall>k < n. page_status get_page ext (counter + k) = (None, True)) \<and>
      page_status get_page ext (counter + n) = (e, False))"

fun event_key :: "event \<Rightarrow> string option" where
  "event_key (Fetch q) = None"
| "event_key (Store typ counter i) = Some (info_ipAddress i)"

text \<open>The requests among the events.\<close>

fun fetches :: "event list \<Rightarrow> string list" where
  "fetches [] = []"
| "fetches (Fetch q # es) = q # fetches es"
| "fetches (Store typ counter i # es) = fetches es"




text \<open>The effect of a write and of a list of events on the table alone.\<close>

definition upsert_table :: "string \<Rightarrow> nat \<Rightarrow> info \<Rightarrow> table \<Rightarrow> table" where
  "upsert_table typ counter i t =
     (if info_ipAddress i \<in> set (keys t) then execute_update_sync typ counter i t
      else t @ [new_row typ counter i])"

fun apply1 :: "event \<Rightarrow> table \<Rightarrow> table" where
  "apply1 (Fetch q) t = t"
| "apply1 (Store typ counter i) t = upsert_table typ counter i t"

text \<open>The values the last write of a list of events to an identifier gives its row.\<close>

fun settle :: "event list \<Rightarrow> row \<Rightarrow> row" where
  "settle [] r = r"
| "settle (Fetch q # es) r = settle es r"
| "settle (Store typ counter i # es) r =
     settle es (if ipAddress r = info_ipAddress i then update_row typ counter i r else r)"

text \<open>The columns of a row that the synchronisation does not write.\<close>

definition kept :: "row \<Rightarrow> string \<times> string list" where
  "kept r = (ipAddress r, [minimum_protect r, running r, files r, cpu r, memory r,
                          bandwidth r, lastlog r, lastupdated r])"

section \<open>The whitelist of column names\<close>

lemma whitelisted_iff: "whitelisted as \<longleftrightarrow> set as \<subseteq> set VALID_COLUMN_NAMES"
  by (induction as) auto

lemma assignments_None:
  "length as = length vs \<Longrightarrow> a \<in> set as \<Longrightarrow> a \<notin> set VALID_COLUMN_NAMES \<Longrightarrow>
   assignments (zip as vs) = None"
proof (induction as arbitrary: vs)
  case Nil
  then show ?case by simp
next
  case (Cons b bs)
  then obtain v ws where vs: "vs = v # ws" by (cases vs) auto
  show ?case
  proof (cases "b \<in> set VALID_COLUMN_NAMES")
    case True
    with Cons vs have "assignments (zip bs ws) = None" by auto
    with True vs show ?thesis by simp
  next
    case False
    with vs show ?thesis by simp
  qed
qed


text \<open>
  C3, as amended. A call of \<open>get_IP_attributes\<close> with a name outside the whitelist prints
  "Invalid column name" and returns -1. Before that the connection has executed its
  CREATE TABLE IF NOT EXISTS and nothing else: the cursor executes no statement, no row
  is read or written, and the file has the rows it had, in a table that has been
  created without rows if the file had none. So does a call of \<open>set_IP_attributes\<close> whose
  two lists have the same length.
\<close>

theorem invalid_column_rejected:
  assumes "a \<in> set attributes" and "a \<notin> set VALID_COLUMN_NAMES"
  shows "get_IP_attributes db IP attributes =
           (Returned (RInt (- 1)),
            \<lparr>on_connection = [Create_table_if_not_exists],
             servers = (case db of None \<Rightarrow> [] | Some t \<Rightarrow> t),
             executed = [], fetched = [], printed = [''Invalid column name'']\<rparr>) \<and>
         database_of (snd (get_IP_attributes db IP attributes)) =
           Some (case db of None \<Rightarrow> [] | Some t \<Rightarrow> t) \<and>
         (length attributes = length values \<longrightarrow>
          set_IP_attributes naff db IP attributes values =
            (Returned (RInt (- 1)),
             \<lparr>on_connection = [Create_table_if_not_exists],
              servers = (case db of None \<Rightarrow> [] | Some t \<Rightarrow> t),
              executed = [], fetched = [], printed = [''Invalid column name'']\<rparr>) \<and>
          database_of (snd (set_IP_attributes naff db IP attributes values)) =
            Some (case db of None \<Rightarrow> [] | Some t \<Rightarrow> t))"
proof -
  from assms have "\<not> whitelisted attributes"
    by (auto simp: whitelisted_iff)
  then have g: "get_IP_attributes db IP attributes =
      (Returned (RInt (- 1)),
       \<lparr>on_connection = [Create_table_if_not_exists],
        servers = (case db of None \<Rightarrow> [] | Some t \<Rightarrow> t),
        executed = [], fetched = [], printed = [''Invalid column name'']\<rparr>)"
    by (simp add: get_IP_attributes_def Let_def connect_to_db_def)
  have s: "set_IP_attributes naff db IP attributes values =
      (Returned (RInt (- 1)),
       \<lparr>on_connection = [Create_table_if_not_exists],
        servers = (case db of None \<Rightarrow> [] | Some t \<Rightarrow> t),
        executed = [], fetched = [], printed = [''Invalid column name'']\<rparr>)"
    if "length attributes = length values"
    using assignments_None [OF that assms] that
    by (simp add: set_IP_attributes_def Let_def connect_to_db_def)
  show ?thesis
    using g s by (simp add: database_of_def)
qed

theorem invalid_column_rejected_witness:
  "get_IP_attributes (Some [sample_row]) ''10.0.0.1'' [''name'', ''DROP TABLE''] =
     (Returned (RInt (- 1)),
      \<lparr>on_connection = [Create_table_if_not_exists], servers = [sample_row],
       executed = [], fetched = [], printed = [''Invalid column name'']\<rparr>) \<and>
   database_of (snd (get_IP_attributes (Some [sample_row]) ''10.0.0.1''
     [''name'', ''DROP TABLE''])) = Some [sample_row] \<and>
   set_IP_attributes keep_text (Some [sample_row]) ''10.0.0.1'' [''name'', ''DROP TABLE'']
       [''x'', ''y''] =
     (Returned (RInt (- 1)),
      \<lparr>on_connection = [Create_table_if_not_exists], servers = [sample_row],
       executed = [], fetched = [], printed = [''Invalid column name'']\<rparr>) \<and>
   database_of (snd (set_IP_attributes keep_text (Some [sample_row]) ''10.0.0.1''
     [''name'', ''DROP TABLE''] [''x'', ''y''])) = Some [sample_row]"
proof -
  have m: "''DROP TABLE'' \<in> set [''name'', ''DROP TABLE'']"
    by simp
  have n: "''DROP TABLE'' \<notin> set VALID_COLUMN_NAMES"
    by (simp add: VALID_COLUMN_NAMES_def)
  show ?thesis
    using invalid_column_rejected [OF m n, of "Some [sample_row]" "''10.0.0.1''"
        "[''x'', ''y'']" keep_text]
    by (simp add: database_of_def)
qed

text \<open>
  C3, as the claim states it, fails in two ways. For \<open>set_IP_attributes\<close> the lengths of
  the two lists are compared first, so a name outside the whitelist with a value list
  of another length is reported as a length mismatch. And the rejection does not come
  before every statement: the connection has executed its CREATE TABLE IF NOT EXISTS,
  which on a file without the table changes the file.
\<close>

theorem invalid_column_counterexample:
  "''DROP TABLE'' \<notin> set VALID_COLUMN_NAMES \<and>
   set_IP_attributes keep_text (Some [sample_row]) ''10.0.0.1'' [''DROP TABLE''] [] =
     (Returned (RInt (- 1)),
      \<lparr>on_connection = [Create_table_if_not_exists], servers = [sample_row],
       executed = [], fetched = [],
       printed = [''Attributes and values must be same length'']\<rparr>) \<and>
   on_connection (snd (get_IP_attributes None ''10.0.0.1'' [''name'', ''DROP TABLE''])) =
     [Create_table_if_not_exists] \<and>
   database_of (snd (get_IP_attributes None ''10.0.0.1'' [''name'', ''DROP TABLE''])) =
     Some [] \<and>
   Some [] \<noteq> (None :: database)"
  by (simp add: set_IP_attributes_def get_IP_attributes_def VALID_COLUMN_NAMES_def
      connect_to_db_def database_of_def)

section \<open>Writing to an identifier that is not in the table\<close>



lemma utf8_length_append [simp]: "utf8_length (a @ b) = utf8_length a + utf8_length b"
  by (simp add: utf8_length_def)


lemma utf8_length_Nil [simp]: "utf8_length [] = 0"
  by (simp add: utf8_length_def)










section \<open>The rows of a page\<close>

lemma contains_iff: "contains needle hay \<longleftrightarrow> (\<exists>pre post. hay = pre @ needle @ post)"
proof (induction hay)
  case Nil
  then show ?case by auto
next
  case (Cons h hay)
  have "take (length needle) (h # hay) = needle \<longleftrightarrow> (\<exists>post. h # hay = needle @ post)"
    by (metis append_eq_conv_conj)
  moreover have "(\<exists>pre post. h # hay = pre @ needle @ post) \<longleftrightarrow>
      (\<exists>post. h # hay = needle @ post) \<or> (\<exists>pre post. hay = pre @ needle @ post)"
  proof
    assume "\<exists>pre post. h # hay = pre @ needle @ post"
    then obtain pre post where e: "h # hay = pre @ needle @ post" by blast
    show "(\<exists>post. h # hay = needle @ post) \<or> (\<exists>pre post. hay = pre @ needle @ post)"
    proof (cases pre)
      case Nil
      with e show ?thesis by auto
    next
      case (Cons p ps)
      with e have "hay = ps @ needle @ post" by simp
      then show ?thesis by blast
    qed
  next
    assume "(\<exists>post. h # hay = needle @ post) \<or> (\<exists>pre post. hay = pre @ needle @ post)"
    then show "\<exists>pre post. h # hay = pre @ needle @ post"
    proof
      assume "\<exists>post. h # hay = needle @ post"
      then obtain post where "h # hay = [] @ needle @ post" by auto
      then show ?thesis by blast
    next
      assume "\<exists>pre post. hay = pre @ needle @ post"
      then obtain pre post where "h # hay = (h # pre) @ needle @ post" by auto
      then show ?thesis by blast
    qed
  qed
  ultimately show ?case using Cons.IH by simp
qed

lemma length_every_second: "length (every_second xs) = (length xs + 1) div 2"
  by (induction xs rule: every_second.induct) auto

lemma nth_every_second: "i < (length xs + 1) div 2 \<Longrightarrow> every_second xs ! i = xs ! (2 * i)"
proof (induction xs arbitrary: i rule: every_second.induct)
  case 1
  then show ?case by simp
next
  case (2 x)
  then show ?case by simp
next
  case (3 x y zs)
  show ?case
  proof (cases i)
    case 0
    then show ?thesis by simp
  next
    case (Suc j)
    with 3 show ?thesis by simp
  qed
qed

lemma index_eq: "index xs i = (if i < length xs then Inr (xs ! i) else Inl IndexError)"
  by (simp add: index_def)

lemma in_text_iff: "in_text k \<longleftrightarrow> k = NavigableString \<or> k = CData"
  by (cases k) simp_all

lemma page_text_strings:
  "get_text doc =
     concat (map (\<lambda>n. case n of
                         Str k t \<Rightarrow> if k = NavigableString \<or> k = CData then t else []
                       | Elem m as cs \<Rightarrow> [])
       (nodes doc))"
proof (induction doc)
  case (Elem m as cs)
  have "concat (map get_text cs) =
      concat (map (\<lambda>n. case n of
                          Str k t \<Rightarrow> if k = NavigableString \<or> k = CData then t else []
                        | Elem m as cs \<Rightarrow> [])
        (concat (map nodes cs)))"
    using Elem by (induction cs) simp_all
  then show ?case by simp
next
  case (Str k t)
  then show ?case by (simp add: in_text_iff)
qed

text \<open>
  C6, as amended. The marker is "Remote host web service", with a capital R, looked for
  as it is written in the text of the page: its strings in document order, without the
  comments and without what script, style and template tags hold. A page whose text has
  the marker is read in the extended layout, the rows of the table of index 16; every
  other page in the standard layout, the rows of the table of index 3 inside the table
  of index 9. A table that is not there is an IndexError.
\<close>

theorem layout_by_marker:
  "find_trs doc =
     (if \<exists>pre post.
           concat (map (\<lambda>n. case n of
                               Str k t \<Rightarrow> if k = NavigableString \<or> k = CData then t else []
                             | Elem m as cs \<Rightarrow> [])
             (nodes doc)) = pre @ ''Remote host web service'' @ post
      then if 16 < length (find_all ''table'' doc)
           then Inr (candidate_rows (find_all ''tr'' (find_all ''table'' doc ! 16)))
           else Inl IndexError
      else if 9 < length (find_all ''table'' doc)
           then if 3 < length (find_all ''table'' (find_all ''table'' doc ! 9))
                then Inr (candidate_rows
                       (find_all ''tr'' (find_all ''table'' (find_all ''table'' doc ! 9) ! 3)))
                else Inl IndexError
           else Inl IndexError)"
  unfolding find_trs_def contains_iff page_text_strings [symmetric]
  by (simp add: extended_layout_def standard_layout_def bind_def index_eq)

text \<open>
  C6, as the claim states it, fails on a page whose text has the marker in lower case
  only: the claim's rule reads the listing, the code looks for the standard layout and
  raises. And a marker anywhere in the content of the page is not enough: with the
  marker of the code in a script only, the code looks for the standard layout as well.
\<close>

theorem layout_by_marker_counterexample:
  "contains ''remote host web service'' (page_content lowercase_page) \<and>
   spec_find_trs lowercase_page = Inr [sample_tr ''10.0.0.1'' ''alpha'' ''Yes'' ''No''] \<and>
   find_trs lowercase_page = Inl IndexError \<and>
   contains ''Remote host web service'' (page_content script_page) \<and>
   \<not> contains ''Remote host web service'' (get_text script_page) \<and>
   extended_layout script_page = Inr [sample_tr ''10.0.0.1'' ''alpha'' ''Yes'' ''No''] \<and>
   find_trs script_page = Inl IndexError"
  by code_simp

text \<open>
  C7, as amended. The rows taken from a table are those at the even positions 2, 4, ...
  of its row sequence, counted from 0, up to but not including the last even position:
  every second row from the first on, without the first and the last of them.
\<close>

theorem candidate_rows_even_positions:
  "candidate_rows rows = map (\<lambda>i. rows ! (2 * i)) [1 ..< (length rows + 1) div 2 - 1]"
proof (rule nth_equalityI)
  show "length (candidate_rows rows) =
      length (map (\<lambda>i. rows ! (2 * i)) [1 ..< (length rows + 1) div 2 - 1])"
    by (simp add: candidate_rows_def length_every_second)
next
  fix i
  assume "i < length (candidate_rows rows)"
  then have i: "i + 2 < (length rows + 1) div 2"
    by (simp add: candidate_rows_def length_every_second)
  then have "candidate_rows rows ! i = every_second rows ! (i + 1)"
    by (simp add: candidate_rows_def nth_butlast nth_tl length_every_second)
  also have "\<dots> = rows ! (2 * (i + 1))"
    using i by (intro nth_every_second) simp
  also have "\<dots> = map (\<lambda>i. rows ! (2 * i)) [1 ..< (length rows + 1) div 2 - 1] ! i"
  proof -
    have "i < length [1 ..< (length rows + 1) div 2 - 1]"
      using i by simp
    moreover have "[1 ..< (length rows + 1) div 2 - 1] ! i = i + 1"
      using i by (subst nth_upt) simp_all
    ultimately show ?thesis
      by (simp del: upt_Suc)
  qed
  finally show "candidate_rows rows ! i =
      map (\<lambda>i. rows ! (2 * i)) [1 ..< (length rows + 1) div 2 - 1] ! i" .
qed

text \<open>
  C7, as the claim states it, fails on a table of seven rows: the code takes the rows 2
  and 4, the odd-indexed rows without their first and last are the row 3.
\<close>

theorem candidate_rows_counterexample:
  "candidate_rows seven_rows = [numbered_tr 2, numbered_tr 4] \<and>
   spec_candidate_rows seven_rows = [numbered_tr 3]"
  by (simp add: candidate_rows_def spec_candidate_rows_def odd_indexed_def seven_rows_def)

section \<open>One write\<close>

lemma found_iff: "filter (\<lambda>r. ipAddress r = k) t = [] \<longleftrightarrow> k \<notin> set (keys t)"
  by (auto simp: keys_def filter_empty_conv)

lemma upsert_eq:
  "upsert typ counter i s =
     (None, s\<lparr>executed := executed s @
                 [Select_name (info_ipAddress i),
                  if info_ipAddress i \<in> set (keys (servers s))
                  then Update_sync (info_ipAddress i) else Insert_row (info_ipAddress i)],
               servers := upsert_table typ counter i (servers s)\<rparr>)"
  by (simp add: upsert_def Let_def found_iff execute_insert_def upsert_table_def new_row_def)

lemma store_information_eq:
  "store_information IP typ counter i s =
     (None, if wanted IP i then replay1 (Store typ counter i) s else s)"
  by (simp add: store_information_def wanted_def upsert_eq)

lemma replay_Nil [simp]: "replay [] s = s"
  by (simp add: replay_def)

lemma replay_Cons [simp]: "replay (e # es) s = replay es (replay1 e s)"
  by (simp add: replay_def)

lemma replay_append [simp]: "replay (es @ fs) s = replay fs (replay es s)"
  by (simp add: replay_def)

section \<open>The loops\<close>

lemma for_trs_replay:
  "for_trs IP typ counter trs s =
     (snd (informations trs),
      replay (map (Store typ counter) (filter (wanted IP) (fst (informations trs)))) s)"
proof (induction trs arbitrary: s)
  case Nil
  then show ?case by simp
next
  case (Cons tr trs)
  show ?case
  proof (cases "get_information tr")
    case (Inl e)
    then show ?thesis by simp
  next
    case (Inr i)
    then show ?thesis
      by (simp add: store_information_eq Cons.IH split: prod.splits)
  qed
qed

lemma while_step:
  "while_moreIPs get_page IP ext counter s =
     (case page_status get_page ext counter of
        (Some e, b) \<Rightarrow> Some (Some e, replay (page_events get_page IP ext counter) s)
      | (None, False) \<Rightarrow> Some (None, replay (page_events get_page IP ext counter) s)
      | (None, True) \<Rightarrow>
          while_moreIPs get_page IP ext (counter + 1)
            (replay (page_events get_page IP ext counter) s))"
  by (subst while_moreIPs.simps)
    (simp add: page_status_def page_events_def for_trs_replay Let_def
      split: option.splits sum.splits prod.splits)


lemma pages_events_Suc:
  "pages_events get_page IP ext counter (Suc n) =
     page_events get_page IP ext counter @ pages_events get_page IP ext (Suc counter) n"
  by (simp add: pages_events_def upt_conv_Cons del: upt_Suc)

lemma stops_Suc:
  "stops get_page ext counter (Suc n) e \<longleftrightarrow>
     page_status get_page ext counter = (None, True) \<and> stops get_page ext (Suc counter) n e"
proof -
  have "(\<forall>k < Suc n. page_status get_page ext (counter + k) = (None, True)) \<longleftrightarrow>
      page_status get_page ext counter = (None, True) \<and>
      (\<forall>k < n. page_status get_page ext (Suc counter + k) = (None, True))"
  proof -
    have "(\<forall>k < Suc n. page_status get_page ext (counter + k) = (None, True)) \<longleftrightarrow>
        page_status get_page ext (counter + 0) = (None, True) \<and>
        (\<forall>k < n. page_status get_page ext (counter + Suc k) = (None, True))"
      by (rule All_less_Suc2)
    then show ?thesis by simp
  qed
  then show ?thesis
    by (simp add: stops_def)
qed

lemma while_stops:
  "stops get_page ext counter n e \<Longrightarrow>
   while_moreIPs get_page IP ext counter s =
     Some (e, replay (pages_events get_page IP ext counter (Suc n)) s)"
proof (induction n arbitrary: counter s)
  case 0
  then have "page_status get_page ext counter = (e, False)"
    by (simp add: stops_def)
  then show ?case
    by (subst while_step) (simp add: pages_events_def split: option.splits)
next
  case (Suc n)
  then have st: "page_status get_page ext counter = (None, True)"
      and rest: "stops get_page ext (Suc counter) n e"
    by (simp_all add: stops_Suc)
  have "while_moreIPs get_page IP ext counter s =
      while_moreIPs get_page IP ext (Suc counter) (replay (page_events get_page IP ext counter) s)"
    by (subst while_step) (simp add: st)
  also have "\<dots> = Some (e, replay (pages_events get_page IP ext (Suc counter) (Suc n))
      (replay (page_events get_page IP ext counter) s))"
    by (rule Suc.IH [OF rest])
  finally show ?case
    by (simp add: pages_events_Suc [of _ _ _ counter])
qed

lemma while_Some_stops:
  assumes "while_moreIPs get_page IP ext counter s = Some y"
  shows "\<exists>n. stops get_page ext counter n (fst y)"
proof (rule while_moreIPs.raw_induct
    [where P = "\<lambda>gp IP ext c s y. \<exists>n. stops gp ext c n (fst y)", OF _ assms])
  fix f :: "(string \<Rightarrow> html option) \<Rightarrow> string \<Rightarrow> string \<Rightarrow> nat \<Rightarrow> session
      \<Rightarrow> (pyerror option \<times> session) option"
  fix get_page IP ext counter s y
  assume IH: "\<And>gp IP ext c s y. f gp IP ext c s = Some y \<Longrightarrow> \<exists>n. stops gp ext c n (fst y)"
  assume body: "(let s1 = s\<lparr>fetched := fetched s @ [url ext counter]\<rparr>
      in case get_page (url ext counter) of
         None \<Rightarrow> Some (Some FetchFailed, s1)
         | Some doc \<Rightarrow>
             case find_trs doc of Inl e \<Rightarrow> Some (Some e, s1)
             | Inr trs \<Rightarrow>
                 case for_trs IP (server_type ext) counter trs s1 of
                 (None, s2) \<Rightarrow>
                   if length trs = 0 then Some (None, s2)
                   else f get_page IP ext (counter + 1) s2
                 | (Some e, s2) \<Rightarrow> Some (Some e, s2)) = Some y"
  have "page_status get_page ext counter = (fst y, False) \<or>
      page_status get_page ext counter = (None, True) \<and>
      (\<exists>s2. f get_page IP ext (counter + 1) s2 = Some y)"
    using body
    by (auto simp: page_status_def for_trs_replay Let_def
        split: option.splits sum.splits prod.splits if_splits)
  then show "\<exists>n. stops get_page ext counter n (fst y)"
  proof
    assume "page_status get_page ext counter = (fst y, False)"
    then have "stops get_page ext counter 0 (fst y)"
      by (simp add: stops_def)
    then show ?thesis ..
  next
    assume a: "page_status get_page ext counter = (None, True) \<and>
      (\<exists>s2. f get_page IP ext (counter + 1) s2 = Some y)"
    then obtain s2 where "f get_page IP ext (counter + 1) s2 = Some y"
      by blast
    then obtain n where "stops get_page ext (counter + 1) n (fst y)"
      using IH by blast
    with a have "stops get_page ext counter (Suc n) (fst y)"
      by (simp add: stops_Suc)
    then show ?thesis ..
  qed
qed

lemma while_Some:
  assumes "while_moreIPs get_page IP ext counter s = Some (e, s')"
  shows "\<exists>n. stops get_page ext counter n e \<and>
    s' = replay (pages_events get_page IP ext counter (Suc n)) s"
proof -
  from while_Some_stops [OF assms] obtain n where n: "stops get_page ext counter n e"
    by auto
  from while_stops [OF n, of IP s] assms
  have "s' = replay (pages_events get_page IP ext counter (Suc n)) s"
    by simp
  with n show ?thesis by blast
qed


section \<open>The whole run\<close>

lemma page_events_wanted:
  "Store typ c i \<in> set (page_events get_page IP ext counter) \<Longrightarrow> wanted IP i"
  by (auto simp: page_events_def split: option.splits sum.splits)

lemma pages_events_wanted:
  "Store typ c i \<in> set (pages_events get_page IP ext counter n) \<Longrightarrow> wanted IP i"
  by (auto simp: pages_events_def dest: page_events_wanted)

lemma for_exts_Some:
  "for_exts get_page IP exts s = Some (e, s') \<Longrightarrow>
   \<exists>es. (\<forall>s2. for_exts get_page IP exts s2 = Some (e, replay es s2)) \<and>
        (\<forall>typ c i. Store typ c i \<in> set es \<longrightarrow> wanted IP i)"
proof (induction exts arbitrary: s)
  case Nil
  then have "\<forall>s2. for_exts get_page IP [] s2 = Some (e, replay [] s2)"
    by simp
  then show ?case by fastforce
next
  case (Cons ext exts)
  from Cons.prems obtain e1 s1 where w: "while_moreIPs get_page IP ext 0 s = Some (e1, s1)"
    by (cases "while_moreIPs get_page IP ext 0 s") auto
  from while_Some [OF w] obtain n where n: "stops get_page ext 0 n e1"
    by blast
  let ?es1 = "pages_events get_page IP ext 0 (Suc n)"
  have w2: "while_moreIPs get_page IP ext 0 s2 = Some (e1, replay ?es1 s2)" for s2
    by (rule while_stops [OF n])
  show ?case
  proof (cases e1)
    case (Some x)
    with w Cons.prems have "e = Some x"
      by simp
    with Some w2 have "\<forall>s2. for_exts get_page IP (ext # exts) s2 = Some (e, replay ?es1 s2)"
      by simp
    then show ?thesis
      using pages_events_wanted by blast
  next
    case None
    with w Cons.prems have "for_exts get_page IP exts s1 = Some (e, s')"
      by simp
    from Cons.IH [OF this] obtain es where
      es: "\<forall>s2. for_exts get_page IP exts s2 = Some (e, replay es s2)"
      and wa: "\<forall>typ c i. Store typ c i \<in> set es \<longrightarrow> wanted IP i"
      by blast
    have "\<forall>s2. for_exts get_page IP (ext # exts) s2 = Some (e, replay (?es1 @ es) s2)"
      using None w2 es by simp
    moreover have "\<forall>typ c i. Store typ c i \<in> set (?es1 @ es) \<longrightarrow> wanted IP i"
      using wa pages_events_wanted by auto
    ultimately show ?thesis by blast
  qed
qed

lemma IPDB_to_localDB_for_exts:
  "IPDB_to_localDB get_page IP db =
     map_option (\<lambda>(e, s). (result e, s))
       (for_exts get_page IP [''pub'', ''priv'', ''sec''] (connect_to_db db))"
  by (simp add: IPDB_to_localDB_def split: option.splits prod.splits)

lemma run_events:
  assumes "IPDB_to_localDB get_page IP db = Some (out, s)"
  shows "\<exists>es. (\<forall>db2. IPDB_to_localDB get_page IP db2 = Some (out, replay es (connect_to_db db2))) \<and>
        (\<forall>typ c i. Store typ c i \<in> set es \<longrightarrow> wanted IP i)"
proof -
  from assms obtain e where
    f: "for_exts get_page IP [''pub'', ''priv'', ''sec''] (connect_to_db db) = Some (e, s)"
    and out: "out = result e"
    by (auto simp: IPDB_to_localDB_for_exts)
  from for_exts_Some [OF f] obtain es where
    es: "\<forall>s2. for_exts get_page IP [''pub'', ''priv'', ''sec''] s2 = Some (e, replay es s2)"
    and wa: "\<forall>typ c i. Store typ c i \<in> set es \<longrightarrow> wanted IP i"
    by blast
  have "\<forall>db2. IPDB_to_localDB get_page IP db2 = Some (out, replay es (connect_to_db db2))"
    using es out by (simp add: IPDB_to_localDB_for_exts)
  with wa show ?thesis by blast
qed

section \<open>Events on the table\<close>

lemma servers_replay1: "servers (replay1 e s) = apply1 e (servers s)"
  by (cases e) (simp_all add: upsert_eq)

lemma servers_replay: "servers (replay es s) = fold apply1 es (servers s)"
  by (induction es arbitrary: s) (simp_all add: servers_replay1)

lemma ipAddress_update_row [simp]: "ipAddress (update_row typ c i r) = ipAddress r"
  by (simp add: update_row_def)

lemma kept_update_row [simp]: "kept (update_row typ c i r) = kept r"
  by (simp add: update_row_def kept_def)

lemma update_row_kept_cong: "kept r = kept r' \<Longrightarrow> update_row typ c i r = update_row typ c i r'"
  by (cases r; cases r') (simp add: update_row_def kept_def)

lemma update_row_new_row [simp]: "update_row typ c i (new_row typ c i) = new_row typ c i"
  by (simp add: update_row_def new_row_def)

lemma update_row_idem [simp]: "update_row typ c i (update_row typ c i r) = update_row typ c i r"
  by (simp add: update_row_def)

lemma kept_settle [simp]: "kept (settle es r) = kept r"
  by (induction es r rule: settle.induct) simp_all

lemma ipAddress_kept: "kept r = kept r' \<Longrightarrow> ipAddress r = ipAddress r'"
  by (simp add: kept_def)

lemma ipAddress_settle [simp]: "ipAddress (settle es r) = ipAddress r"
  by (rule ipAddress_kept) simp

lemma keys_map_settle [simp]: "keys (map (settle es) t) = keys t"
  by (simp add: keys_def)

lemma keys_update_sync [simp]: "keys (execute_update_sync typ c i t) = keys t"
  by (induction t) (simp_all add: keys_def execute_update_sync_def)


lemma settle_kept_cong:
  "kept r = kept r' \<Longrightarrow> Some (ipAddress r) \<in> event_key ` set es \<Longrightarrow> settle es r = settle es r'"
proof (induction es r arbitrary: r' rule: settle.induct)
  case (1 r)
  then show ?case by simp
next
  case (2 q es r)
  then show ?case by simp
next
  case (3 ty counter i es r)
  have k: "ipAddress r' = ipAddress r"
    using 3(2) by (simp add: kept_def)
  show ?case
  proof (cases "ipAddress r = info_ipAddress i")
    case True
    then show ?thesis
      using k update_row_kept_cong [OF 3(2)] by simp
  next
    case False
    with 3(3) have "Some (ipAddress r) \<in> event_key ` set es"
      by auto
    with False k 3(1) [of r'] 3(2) show ?thesis
      by simp
  qed
qed

lemma fold_apply1_settle:
  "\<exists>news. fold apply1 es t = map (settle es) t @ news \<and>
     ((\<forall>k. Some k \<in> event_key ` set es \<longrightarrow> k \<in> set (keys t)) \<longrightarrow> news = [])"
proof (induction es arbitrary: t)
  case Nil
  have "map (settle []) t = t"
    by (induction t) simp_all
  then show ?case by simp
next
  case (Cons e es)
  show ?case
  proof (cases e)
    case (Fetch q)
    have "map (settle (Fetch q # es)) t = map (settle es) t"
      by simp
    with Cons [of t] Fetch show ?thesis by auto
  next
    case (Store ty c i)
    let ?f = "\<lambda>r. if ipAddress r = info_ipAddress i then update_row ty c i r else r"
    have m: "map (settle (Store ty c i # es)) t = map (settle es) (map ?f t)"
      by simp
    show ?thesis
    proof (cases "info_ipAddress i \<in> set (keys t)")
      case True
      then have a: "apply1 e t = map ?f t"
        using Store by (simp add: upsert_table_def execute_update_sync_def)
      have kk: "keys (map ?f t) = keys t"
        by (induction t) (simp_all add: keys_def)
      from Cons [of "map ?f t"] obtain news where
        n: "fold apply1 es (map ?f t) = map (settle es) (map ?f t) @ news"
        and z: "(\<forall>k. Some k \<in> event_key ` set es \<longrightarrow> k \<in> set (keys (map ?f t))) \<longrightarrow> news = []"
        by blast
      have "fold apply1 (e # es) t = map (settle (e # es)) t @ news"
        using a n m Store by simp
      moreover have "(\<forall>k. Some k \<in> event_key ` set (e # es) \<longrightarrow> k \<in> set (keys t)) \<longrightarrow> news = []"
        using z kk by auto
      ultimately show ?thesis by blast
    next
      case False
      then have a: "apply1 e t = t @ [new_row ty c i]"
        using Store by (simp add: upsert_table_def)
      have id: "map ?f t = t"
        using False by (induction t) (auto simp: keys_def)
      from Cons [of "t @ [new_row ty c i]"] obtain news where
        n: "fold apply1 es (t @ [new_row ty c i]) =
            map (settle es) (t @ [new_row ty c i]) @ news"
        by blast
      have "fold apply1 (e # es) t =
          map (settle (e # es)) t @ (settle es (new_row ty c i) # news)"
        using a n m id Store by simp
      moreover have "\<not> (\<forall>k. Some k \<in> event_key ` set (e # es) \<longrightarrow> k \<in> set (keys t))"
        using False Store by force
      ultimately show ?thesis by blast
    qed
  qed
qed


lemma keys_append [simp]: "keys (t @ u) = keys t @ keys u"
  by (simp add: keys_def)

lemma keys_new_row [simp]: "keys [new_row ty c i] = [info_ipAddress i]"
  by (simp add: keys_def new_row_def)

lemma keys_upsert_table:
  "keys (upsert_table ty c i t) =
     (if info_ipAddress i \<in> set (keys t) then keys t else keys t @ [info_ipAddress i])"
  by (simp add: upsert_table_def)

lemma keys_apply1: "set (keys (apply1 e t)) = set (keys t) \<union> {k. event_key e = Some k}"
  by (cases e) (auto simp: keys_upsert_table)

lemma keys_fold_apply1:
  "set (keys (fold apply1 es t)) = set (keys t) \<union> {k. Some k \<in> event_key ` set es}"
proof (induction es arbitrary: t)
  case Nil
  then show ?case by simp
next
  case (Cons e es)
  have "{k. Some k \<in> event_key ` set (e # es)} =
      {k. event_key e = Some k} \<union> {k. Some k \<in> event_key ` set es}"
    by auto
  then show ?case
    by (simp add: Cons keys_apply1 Un_assoc)
qed

lemma untouched_apply1:
  "r \<in> set (apply1 e t) \<Longrightarrow> event_key e \<noteq> Some (ipAddress r) \<Longrightarrow> r \<in> set t"
  by (cases e) (auto simp: upsert_table_def execute_update_sync_def new_row_def split: if_splits)

lemma untouched_fold_apply1:
  "r \<in> set (fold apply1 es t) \<Longrightarrow> Some (ipAddress r) \<notin> event_key ` set es \<Longrightarrow> r \<in> set t"
proof (induction es arbitrary: t)
  case Nil
  then show ?case by simp
next
  case (Cons e es)
  then have "r \<in> set (apply1 e t)"
    by simp
  moreover have "event_key e \<noteq> Some (ipAddress r)"
    using Cons.prems(2) by force
  ultimately show ?case
    by (rule untouched_apply1)
qed

lemma written_upsert_table:
  assumes "r \<in> set (upsert_table ty c i t)" and "ipAddress r = info_ipAddress i"
  shows "update_row ty c i r = r"
proof (cases "info_ipAddress i \<in> set (keys t)")
  case True
  with assms(1) have
    "r \<in> (\<lambda>r0. if ipAddress r0 = info_ipAddress i then update_row ty c i r0 else r0) ` set t"
    by (simp add: upsert_table_def execute_update_sync_def)
  then obtain r0 where
    "r = (if ipAddress r0 = info_ipAddress i then update_row ty c i r0 else r0)"
    by blast
  with assms(2) show ?thesis
    by (cases "ipAddress r0 = info_ipAddress i") simp_all
next
  case False
  with assms(2) have "r \<notin> set t"
    by (force simp: keys_def)
  with False assms(1) have "r = new_row ty c i"
    by (simp add: upsert_table_def)
  then show ?thesis by simp
qed

lemma settled_fold_apply1: "r \<in> set (fold apply1 es t) \<Longrightarrow> settle es r = r"
proof (induction es arbitrary: t)
  case Nil
  then show ?case by simp
next
  case (Cons e es)
  then have r: "r \<in> set (fold apply1 es (apply1 e t))"
    by simp
  show ?case
  proof (cases e)
    case (Fetch q)
    with Cons.IH [OF r] show ?thesis by simp
  next
    case (Store ty c i)
    show ?thesis
    proof (cases "ipAddress r = info_ipAddress i")
      case False
      with Store Cons.IH [OF r] show ?thesis by simp
    next
      case True
      show ?thesis
      proof (cases "Some (ipAddress r) \<in> event_key ` set es")
        case later: True
        have "settle es (update_row ty c i r) = settle es r"
          by (rule settle_kept_cong) (simp_all add: later)
        with True Store Cons.IH [OF r] show ?thesis by simp
      next
        case last: False
        from untouched_fold_apply1 [OF r last] have "r \<in> set (upsert_table ty c i t)"
          using Store by simp
        then have "update_row ty c i r = r"
          using True by (rule written_upsert_table)
        with True Store Cons.IH [OF r] show ?thesis by simp
      qed
    qed
  qed
qed

lemma fold_apply1_idem: "fold apply1 es (fold apply1 es t) = fold apply1 es t"
proof -
  let ?t = "fold apply1 es t"
  from fold_apply1_settle [of es ?t] obtain news where
    n: "fold apply1 es ?t = map (settle es) ?t @ news"
    and z: "(\<forall>k. Some k \<in> event_key ` set es \<longrightarrow> k \<in> set (keys ?t)) \<longrightarrow> news = []"
    by blast
  have "news = []"
    using z by (simp add: keys_fold_apply1)
  moreover have "map (settle es) ?t = ?t"
    by (rule map_idI) (rule settled_fold_apply1)
  ultimately show ?thesis
    using n by simp
qed

lemma distinct_apply1: "distinct (keys t) \<Longrightarrow> distinct (keys (apply1 e t))"
  by (cases e) (simp_all add: keys_upsert_table)

lemma distinct_fold_apply1: "distinct (keys t) \<Longrightarrow> distinct (keys (fold apply1 es t))"
  by (induction es arbitrary: t) (simp_all add: distinct_apply1)

section \<open>Running the synchronisation twice\<close>

lemma sample_run:
  "IPDB_to_localDB sample_get_page ''none'' None =
     Some (Returned RNone,
       \<lparr>on_connection = [Create_table_if_not_exists], servers = synced_table,
        executed = [Select_name ''10.0.0.1'', Insert_row ''10.0.0.1'',
                    Select_name ''10.0.0.2'', Insert_row ''10.0.0.2'',
                    Select_name ''10.0.0.1'', Update_sync ''10.0.0.1''],
        fetched = sample_fetched, printed = []\<rparr>)"
  by code_simp

text \<open>
  C1. When a run of \<open>IPDB_to_localDB\<close> ends, with a return or with an exception, a second
  run against the same pages and with the same filter, on the table the first has left,
  ends the same way and leaves that table as it is: no row is added and no column of a
  row changes.
\<close>

theorem sync_twice:
  assumes "IPDB_to_localDB get_page IP db = Some (out, s1)"
  shows "\<exists>s2. IPDB_to_localDB get_page IP (Some (servers s1)) = Some (out, s2) \<and>
              servers s2 = servers s1"
proof -
  from run_events [OF assms] obtain es where
    es: "\<And>db2. IPDB_to_localDB get_page IP db2 = Some (out, replay es (connect_to_db db2))"
    by blast
  from es [of db] assms have s1: "s1 = replay es (connect_to_db db)"
    by simp
  let ?s2 = "replay es (connect_to_db (Some (servers s1)))"
  have "servers ?s2 = fold apply1 es (servers s1)"
    by (simp add: servers_replay connect_to_db_def)
  also have "\<dots> = servers s1"
    unfolding s1 servers_replay by (rule fold_apply1_idem)
  finally show ?thesis
    using es [of "Some (servers s1)"] by blast
qed

theorem sync_twice_witness:
  "\<exists>s2. IPDB_to_localDB sample_get_page ''none'' (Some synced_table) = Some (Returned RNone, s2) \<and>
        servers s2 = synced_table"
  using sync_twice [OF sample_run] by simp

section \<open>Unique identifiers\<close>

lemma sync_distinct:
  assumes "IPDB_to_localDB get_page IP db = Some (out, s)"
      and "distinct (keys (servers (connect_to_db db)))"
  shows "distinct (keys (servers s))"
proof -
  from run_events [OF assms(1)] obtain es where
    "IPDB_to_localDB get_page IP db = Some (out, replay es (connect_to_db db))"
    by blast
  with assms(1) have "s = replay es (connect_to_db db)"
    by simp
  with assms(2) show ?thesis
    by (simp add: servers_replay distinct_fold_apply1)
qed

lemma sync_sequence_distinct:
  "sync_sequence calls db = Some db' \<Longrightarrow> distinct (keys (servers (connect_to_db db))) \<Longrightarrow>
   distinct (keys (servers (connect_to_db db')))"
proof (induction calls arbitrary: db)
  case Nil
  then show ?case by simp
next
  case (Cons call calls)
  obtain get_page IP where call: "call = (get_page, IP)"
    by (cases call)
  from Cons.prems(1) call obtain out s where
    run: "IPDB_to_localDB get_page IP db = Some (out, s)"
    and rest: "sync_sequence calls (Some (servers s)) = Some db'"
    by (auto split: option.splits)
  from sync_distinct [OF run Cons.prems(2)]
  have "distinct (keys (servers (connect_to_db (Some (servers s)))))"
    by (simp add: connect_to_db_def)
  with rest show ?case
    by (rule Cons.IH)
qed

text \<open>
  C2. A table without two rows of one identifier has none after any sequence of runs,
  and none after any single write of a run; and a write for an identifier that a row
  has leaves the identifiers of the table as they are, in number and in order.
\<close>

theorem identifiers_stay_unique:
  assumes "distinct (keys (servers (connect_to_db db)))"
  shows "(sync_sequence calls db = Some db' \<longrightarrow> distinct (keys (servers (connect_to_db db')))) \<and>
         (distinct (keys (servers s)) \<longrightarrow>
            distinct (keys (servers (snd (store_information IP ty c i s))))) \<and>
         (info_ipAddress i \<in> set (keys (servers s)) \<longrightarrow>
            keys (servers (snd (store_information IP ty c i s))) = keys (servers s))"
proof -
  have "servers (snd (store_information IP ty c i s)) =
      (if wanted IP i then upsert_table ty c i (servers s) else servers s)"
    by (simp add: store_information_eq upsert_eq)
  then show ?thesis
    using assms sync_sequence_distinct [of calls db db']
    by (auto simp: keys_upsert_table)
qed

theorem identifiers_stay_unique_witness:
  "distinct (keys (servers (connect_to_db (Some synced_table)))) \<and>
   distinct (keys (servers (snd (store_information ''none'' ''Secret'' 2
     \<lparr>info_ipAddress = ''10.0.0.2'', info_name = ''gamma'', info_admin = True,
      info_owned = False\<rparr> (connect_to_db (Some synced_table)))))) \<and>
   keys (servers (snd (store_information ''none'' ''Secret'' 2
     \<lparr>info_ipAddress = ''10.0.0.2'', info_name = ''gamma'', info_admin = True,
      info_owned = False\<rparr> (connect_to_db (Some synced_table))))) = [''10.0.0.1'', ''10.0.0.2'']"
proof -
  have run: "sync_sequence [(sample_get_page, ''none'')] None = Some (Some synced_table)"
    by (simp add: sample_run)
  have d0: "distinct (keys (servers (connect_to_db None)))"
    by (simp add: connect_to_db_def keys_def)
  have d: "distinct (keys (servers (connect_to_db (Some synced_table))))"
    using identifiers_stay_unique [OF d0, of "[(sample_get_page, ''none'')]" "Some synced_table"]
      run
    by simp
  have k: "keys (servers (connect_to_db (Some synced_table))) = [''10.0.0.1'', ''10.0.0.2'']"
    by (simp add: connect_to_db_def keys_def synced_table_def)
  show ?thesis
    using d k identifiers_stay_unique [OF d, of "[]" "Some synced_table"
        "connect_to_db (Some synced_table)" "''none''" "''Secret''" 2
        "\<lparr>info_ipAddress = ''10.0.0.2'', info_name = ''gamma'', info_admin = True,
          info_owned = False\<rparr>"]
    by simp
qed

section \<open>A run with a filter\<close>

lemma wanted_key: "IP \<noteq> ''none'' \<Longrightarrow> wanted IP i \<Longrightarrow> info_ipAddress i = IP"
  by (simp add: wanted_def)

lemma filter_apply1:
  "(\<forall>k. event_key e = Some k \<longrightarrow> k = IP) \<Longrightarrow>
   filter (\<lambda>r. ipAddress r \<noteq> IP) (apply1 e t) = filter (\<lambda>r. ipAddress r \<noteq> IP) t"
proof (cases e)
  case (Fetch q)
  then show ?thesis by simp
next
  case (Store ty c i)
  assume "\<forall>k. event_key e = Some k \<longrightarrow> k = IP"
  with Store have k: "info_ipAddress i = IP"
    by simp
  have "filter (\<lambda>r. ipAddress r \<noteq> IP) (execute_update_sync ty c i t) =
      filter (\<lambda>r. ipAddress r \<noteq> IP) t"
    using k by (induction t) (simp_all add: execute_update_sync_def)
  then show ?thesis
    using Store k by (simp add: upsert_table_def new_row_def)
qed

lemma filter_fold_apply1:
  "(\<forall>e \<in> set es. \<forall>k. event_key e = Some k \<longrightarrow> k = IP) \<Longrightarrow>
   filter (\<lambda>r. ipAddress r \<noteq> IP) (fold apply1 es t) = filter (\<lambda>r. ipAddress r \<noteq> IP) t"
  by (induction es arbitrary: t) (simp_all add: filter_apply1)

lemma executed_replay1:
  "(\<forall>k. event_key e = Some k \<longrightarrow> k = IP) \<Longrightarrow> \<forall>q \<in> set (executed s). stmt_key q = IP \<Longrightarrow>
   \<forall>q \<in> set (executed (replay1 e s)). stmt_key q = IP"
  by (cases e) (auto simp: upsert_eq)

lemma executed_replay:
  "(\<forall>e \<in> set es. \<forall>k. event_key e = Some k \<longrightarrow> k = IP) \<Longrightarrow>
   \<forall>q \<in> set (executed s). stmt_key q = IP \<Longrightarrow>
   \<forall>q \<in> set (executed (replay es s)). stmt_key q = IP"
proof (induction es arbitrary: s)
  case Nil
  then show ?case by simp
next
  case (Cons e es)
  have 1: "\<forall>q \<in> set (executed (replay1 e s)). stmt_key q = IP"
    using Cons.prems by (intro executed_replay1) simp_all
  have 2: "\<forall>e \<in> set es. \<forall>k. event_key e = Some k \<longrightarrow> k = IP"
    using Cons.prems(1) by simp
  show ?case
    using Cons.IH [OF 2 1] by simp
qed

text \<open>
  C4. With a filter other than "none", a row read from a page with another identifier
  leaves the session as it is: no statement is executed for it. After the run, every
  statement executed has the identifier of the filter as its parameter, and the rows of
  the table with another identifier are the ones the run has found, in their order.
\<close>

theorem filtered_sync_frame:
  assumes "IP \<noteq> ''none''"
  shows "(info_ipAddress i \<noteq> IP \<longrightarrow> store_information IP ty c i s0 = (None, s0)) \<and>
         (IPDB_to_localDB get_page IP db = Some (out, s) \<longrightarrow>
            (\<forall>q \<in> set (executed s). stmt_key q = IP) \<and>
            filter (\<lambda>r. ipAddress r \<noteq> IP) (servers s) =
              filter (\<lambda>r. ipAddress r \<noteq> IP) (servers (connect_to_db db)))"
proof -
  have "(\<forall>q \<in> set (executed s). stmt_key q = IP) \<and>
      filter (\<lambda>r. ipAddress r \<noteq> IP) (servers s) =
        filter (\<lambda>r. ipAddress r \<noteq> IP) (servers (connect_to_db db))"
    if run: "IPDB_to_localDB get_page IP db = Some (out, s)"
  proof -
    from run_events [OF run] obtain es where
      es: "IPDB_to_localDB get_page IP db = Some (out, replay es (connect_to_db db))"
      and wa: "\<forall>ty c i. Store ty c i \<in> set es \<longrightarrow> wanted IP i"
      by blast
    from es run have s: "s = replay es (connect_to_db db)"
      by simp
    have ks: "\<forall>e \<in> set es. \<forall>k. event_key e = Some k \<longrightarrow> k = IP"
    proof (intro ballI allI impI)
      fix e k
      assume m: "e \<in> set es" and ek: "event_key e = Some k"
      from ek obtain ty c i where e: "e = Store ty c i" and k: "k = info_ipAddress i"
        by (cases e) auto
      from m e wa have "wanted IP i"
        by blast
      with k assms show "k = IP"
        by (simp add: wanted_key)
    qed
    have "\<forall>q \<in> set (executed (connect_to_db db)). stmt_key q = IP"
      by (simp add: connect_to_db_def)
    with ks have "\<forall>q \<in> set (executed s). stmt_key q = IP"
      unfolding s by (rule executed_replay)
    moreover have "filter (\<lambda>r. ipAddress r \<noteq> IP) (servers s) =
        filter (\<lambda>r. ipAddress r \<noteq> IP) (servers (connect_to_db db))"
      unfolding s servers_replay using ks by (rule filter_fold_apply1)
    ultimately show ?thesis by blast
  qed
  moreover have "store_information IP ty c i s0 = (None, s0)" if "info_ipAddress i \<noteq> IP"
    using that assms by (simp add: store_information_def)
  ultimately show ?thesis by blast
qed

lemma sample_filtered_run:
  "IPDB_to_localDB sample_get_page ''10.0.0.2'' (Some [sample_row]) =
     Some (Returned RNone,
       \<lparr>on_connection = [Create_table_if_not_exists], servers = [sample_row, beta_row],
        executed = [Select_name ''10.0.0.2'', Insert_row ''10.0.0.2''],
        fetched = sample_fetched, printed = []\<rparr>)"
  by code_simp

theorem filtered_sync_frame_witness:
  "store_information ''10.0.0.2'' ''Public'' 0
     \<lparr>info_ipAddress = ''10.0.0.1'', info_name = ''alpha one'', info_admin = True,
      info_owned = False\<rparr> (connect_to_db (Some [sample_row])) =
     (None, connect_to_db (Some [sample_row])) \<and>
   map stmt_key [Select_name ''10.0.0.2'', Insert_row ''10.0.0.2''] =
     [''10.0.0.2'', ''10.0.0.2''] \<and>
   filter (\<lambda>r. ipAddress r \<noteq> ''10.0.0.2'') [sample_row, beta_row] = [sample_row]"
proof -
  have ne: "''10.0.0.2'' \<noteq> ''none''"
    by simp
  have sr: "ipAddress sample_row = ''10.0.0.1''"
    by (simp add: sample_row_def)
  show ?thesis
    using filtered_sync_frame [OF ne, of
        "\<lparr>info_ipAddress = ''10.0.0.1'', info_name = ''alpha one'', info_admin = True,
          info_owned = False\<rparr>" "''Public''" 0 "connect_to_db (Some [sample_row])"
        sample_get_page "Some [sample_row]" "Returned RNone"
        "\<lparr>on_connection = [Create_table_if_not_exists], servers = [sample_row, beta_row],
          executed = [Select_name ''10.0.0.2'', Insert_row ''10.0.0.2''],
          fetched = sample_fetched, printed = []\<rparr>"]
      sample_filtered_run sr
    by (simp add: connect_to_db_def)
qed

section \<open>The requests of one category\<close>



lemma fetches_append [simp]: "fetches (es @ fs) = fetches es @ fetches fs"
  by (induction es rule: fetches.induct) simp_all


lemma fetches_Store [simp]: "fetches (map (Store ty c) js) = []"
  by (induction js) simp_all

lemma fetches_page_events [simp]: "fetches (page_events get_page IP ext counter) = [url ext counter]"
  by (simp add: page_events_def split: option.splits sum.splits)







section \<open>The columns a run does not write\<close>

lemma kept_execute_update_sync: "map kept (execute_update_sync ty c i t) = map kept t"
  by (induction t) (simp_all add: execute_update_sync_def)

lemma sync_keeps_columns:
  assumes "IPDB_to_localDB get_page IP db = Some (out, s)"
  shows "map kept (take (length (servers (connect_to_db db))) (servers s)) =
    map kept (servers (connect_to_db db))"
proof -
  let ?t = "servers (connect_to_db db)"
  from run_events [OF assms] obtain es where
    "IPDB_to_localDB get_page IP db = Some (out, replay es (connect_to_db db))"
    by blast
  with assms have "s = replay es (connect_to_db db)"
    by simp
  then have "servers s = fold apply1 es ?t"
    by (simp add: servers_replay)
  with fold_apply1_settle [of es ?t] obtain news where
    "servers s = map (settle es) ?t @ news"
    by auto
  then have "take (length ?t) (servers s) = map (settle es) ?t"
    by simp
  then show ?thesis
    by simp
qed

text \<open>
  C8. For a row read from a page whose identifier the table has, the write is a SELECT
  and an UPDATE that gives the rows of this identifier the name, the category, the page
  number and the two flags read, and changes nothing else: every row keeps its
  identifier, \<open>minimum_protect\<close>, \<open>running\<close>, \<open>files\<close>, \<open>cpu\<close>, \<open>memory\<close>, \<open>bandwidth\<close>,
  \<open>lastlog\<close> and \<open>lastupdated\<close>. So does every row of the table through a whole run.
\<close>

theorem update_keeps_other_columns:
  assumes "info_ipAddress i \<in> set (keys (servers s))"
      and "info_ipAddress i = IP \<or> IP = ''none''"
  shows "store_information IP ty c i s =
           (None,
            s\<lparr>executed := executed s @
                 [Select_name (info_ipAddress i), Update_sync (info_ipAddress i)],
              servers :=
                 map (\<lambda>r. if ipAddress r = info_ipAddress i
                          then r\<lparr>name := info_name i, type := ty, page := str c,
                                 admin := bool_val (info_admin i),
                                 owned := bool_val (info_owned i)\<rparr>
                          else r) (servers s)\<rparr>) \<and>
         map kept (servers (snd (store_information IP ty c i s))) = map kept (servers s) \<and>
         (IPDB_to_localDB get_page IP' db = Some (out, s') \<longrightarrow>
            map kept (take (length (servers (connect_to_db db))) (servers s')) =
              map kept (servers (connect_to_db db)))"
proof -
  have w: "wanted IP i"
    using assms(2) by (auto simp: wanted_def)
  have 1: "store_information IP ty c i s =
      (None,
       s\<lparr>executed := executed s @
            [Select_name (info_ipAddress i), Update_sync (info_ipAddress i)],
         servers := execute_update_sync ty c i (servers s)\<rparr>)"
    using w assms(1) by (simp add: store_information_eq upsert_eq upsert_table_def)
  have 2: "execute_update_sync ty c i (servers s) =
      map (\<lambda>r. if ipAddress r = info_ipAddress i
               then r\<lparr>name := info_name i, type := ty, page := str c,
                      admin := bool_val (info_admin i), owned := bool_val (info_owned i)\<rparr>
               else r) (servers s)"
    by (simp add: execute_update_sync_def update_row_def)
  have 3: "map kept (servers (snd (store_information IP ty c i s))) = map kept (servers s)"
    by (simp add: 1 kept_execute_update_sync)
  show ?thesis
    using 1 2 3 sync_keeps_columns [of get_page IP' db out s'] by simp
qed

theorem update_keeps_other_columns_witness:
  "store_information ''none'' ''Secret'' 2
     \<lparr>info_ipAddress = ''10.0.0.1'', info_name = ''gamma'', info_admin = True,
      info_owned = False\<rparr> (connect_to_db (Some [sample_row])) =
     (None,
      \<lparr>on_connection = [Create_table_if_not_exists], servers = [sample_row\<lparr>name := ''gamma'', type := ''Secret'', page := ''2'',
                              admin := Integer 1, owned := Integer 0\<rparr>],
       executed = [Select_name ''10.0.0.1'', Update_sync ''10.0.0.1''],
       fetched = [], printed = []\<rparr>) \<and>
   map kept (servers (snd (store_information ''none'' ''Secret'' 2
     \<lparr>info_ipAddress = ''10.0.0.1'', info_name = ''gamma'', info_admin = True,
      info_owned = False\<rparr> (connect_to_db (Some [sample_row]))))) =
     [(''10.0.0.1'', [''7'', ''ssh'', [], [], [], [], [], ''N/A''])] \<and>
   map kept (take 1 [sample_row, beta_row]) =
     [(''10.0.0.1'', [''7'', ''ssh'', [], [], [], [], [], ''N/A''])]"
proof -
  have 1: "info_ipAddress \<lparr>info_ipAddress = ''10.0.0.1'', info_name = ''gamma'',
      info_admin = True, info_owned = False\<rparr>
      \<in> set (keys (servers (connect_to_db (Some [sample_row]))))"
    by (simp add: connect_to_db_def keys_def sample_row_def)
  have 2: "info_ipAddress \<lparr>info_ipAddress = ''10.0.0.1'', info_name = ''gamma'',
      info_admin = True, info_owned = False\<rparr> = ''none'' \<or> ''none'' = ''none''"
    by simp
  have 3: "str 2 = ''2''"
    by code_simp
  show ?thesis
    using update_keeps_other_columns [OF 1 2, of "''Secret''" 2 sample_get_page "''10.0.0.2''"
        "Some [sample_row]" "Returned RNone"
        "\<lparr>on_connection = [Create_table_if_not_exists], servers = [sample_row, beta_row],
          executed = [Select_name ''10.0.0.2'', Insert_row ''10.0.0.2''],
          fetched = sample_fetched, printed = []\<rparr>"]
      sample_filtered_run 3
    by (simp add: connect_to_db_def bool_val_def sample_row_def kept_def)
qed

section \<open>The filter "none"\<close>


















end
